theory Spec2Isabelle
  imports Main "HOL-Library.Sublist"
begin

section \<open>The console logger of packages/vite/src/node/logger.ts\<close>

subsection \<open>Severities and their ranks\<close>

text \<open>
  \<^verbatim>\<open>type LogType = 'error' | 'warn' | 'info'\<close> and
  \<^verbatim>\<open>type LogLevel = LogType | 'silent'\<close>, with the table \<^verbatim>\<open>LogLevels\<close>.
\<close>

datatype LogType = Error | Warn | Info

datatype LogLevel = Silent | Level LogType

fun LogLevels :: "LogLevel \<Rightarrow> nat" where
  "LogLevels Silent = 0"
| "LogLevels (Level Error) = 1"
| "LogLevels (Level Warn) = 2"
| "LogLevels (Level Info) = 3"

subsection \<open>The surroundings of a call\<close>

text \<open>
  What the module reads from outside itself: the five picocolors formatters it uses, the
  terminal (\<^verbatim>\<open>process.stdout.isTTY\<close>, \<^verbatim>\<open>process.stdout.rows\<close>), the variable
  \<^verbatim>\<open>process.env.CI\<close> and the string \<^verbatim>\<open>new Date().toLocaleTimeString()\<close> gives at
  the moment of the call.
\<close>

record env =
  cyan :: "string \<Rightarrow> string"
  yellow :: "string \<Rightarrow> string"
  red :: "string \<Rightarrow> string"
  bold :: "string \<Rightarrow> string"
  dim :: "string \<Rightarrow> string"
  isTTY :: bool
  env_CI :: "string option"
  rows :: int
  now :: string

text \<open>What a call does to the terminal, in order.\<close>

datatype ConsoleMethod = M_log | M_warn | M_error

datatype effect =
    Console ConsoleMethod "string list"
  | CursorTo nat nat
  | ClearScreenDown

text \<open>A template literal renders a non-negative integer in decimal.\<close>

fun show_nat :: "nat \<Rightarrow> string" where
  "show_nat n =
     (if n < 10 then [''0123456789'' ! n]
      else show_nat (n div 10) @ [''0123456789'' ! (n mod 10)])"

declare show_nat.simps [simp del]

subsection \<open>Module state and logger objects\<close>

text \<open>
  The three module-level variables \<^verbatim>\<open>lastType\<close>, \<^verbatim>\<open>lastMsg\<close> and \<^verbatim>\<open>sameCount\<close>
  (lines 42 to 44), declared outside \<^verbatim>\<open>createLogger\<close>. The counter is a
  JavaScript number that only ever holds a count; the model counts in \<open>nat\<close>, which
  agrees with it up to \<open>2 ^ 53\<close>.
\<close>

record Module =
  lastType :: "LogType option"
  lastMsg :: "string option"
  sameCount :: nat

definition initial_module :: Module where
  "initial_module = \<lparr>lastType = None, lastMsg = None, sameCount = 0\<rparr>"

text \<open>
  An error object has an identity and a message; the \<^verbatim>\<open>WeakSet\<close> of a logger
  compares identities only.
\<close>

record ErrorObj =
  ident :: nat
  message :: string

record LogErrorOptions =
  opt_clear :: bool
  opt_timestamp :: bool
  opt_error :: "ErrorObj option"

definition no_options :: LogErrorOptions where
  "no_options = \<lparr>opt_clear = False, opt_timestamp = False, opt_error = None\<rparr>"

text \<open>
  What the closure of one \<^verbatim>\<open>createLogger\<close> call holds: the constants
  \<^verbatim>\<open>prefix\<close>, \<^verbatim>\<open>thresh\<close> and \<^verbatim>\<open>canClearScreen\<close>, the sets
  \<^verbatim>\<open>loggedErrors\<close> and \<^verbatim>\<open>warnedMessages\<close>, and the field \<^verbatim>\<open>hasWarned\<close>.
\<close>

record Logger =
  prefix :: string
  thresh :: nat
  canClearScreen :: bool
  loggedErrors :: "nat set"
  warnedMessages :: "string set"
  hasWarned :: bool

type_synonym state = "Module \<times> Logger"

subsection \<open>Clearing the screen\<close>

definition clearScreen :: "env \<Rightarrow> effect list" where
  "clearScreen E =
     (let repeatCount = rows E - 2;
          blank = (if repeatCount > 0 then replicate (nat repeatCount) (CHR 0x0A) else [])
      in [Console M_log [blank], CursorTo 0 0, ClearScreenDown])"

text \<open>\<^verbatim>\<open>const clear = canClearScreen ? clearScreen : () => {}\<close>\<close>

definition clear :: "env \<Rightarrow> Logger \<Rightarrow> effect list" where
  "clear E l = (if canClearScreen l then clearScreen E else [])"

subsection \<open>The function output (here output_fn: output is a keyword)\<close>

definition method_of :: "LogType \<Rightarrow> ConsoleMethod" where
  "method_of type = (case type of Info \<Rightarrow> M_log | Warn \<Rightarrow> M_warn | Error \<Rightarrow> M_error)"

definition format :: "env \<Rightarrow> Logger \<Rightarrow> LogType \<Rightarrow> string \<Rightarrow> LogErrorOptions \<Rightarrow> string" where
  "format E l type msg options =
     (if opt_timestamp options then
        (let tag = (case type of
                      Info \<Rightarrow> cyan E (bold E (prefix l))
                    | Warn \<Rightarrow> yellow E (bold E (prefix l))
                    | Error \<Rightarrow> red E (bold E (prefix l)))
         in dim E (now E) @ '' '' @ tag @ '' '' @ msg)
      else msg)"

definition add_error :: "LogErrorOptions \<Rightarrow> Logger \<Rightarrow> Logger" where
  "add_error options l =
     (case opt_error options of
        Some e \<Rightarrow> l\<lparr>loggedErrors := insert (ident e) (loggedErrors l)\<rparr>
      | None \<Rightarrow> l)"

definition output_fn ::
  "env \<Rightarrow> LogType \<Rightarrow> string \<Rightarrow> LogErrorOptions \<Rightarrow> state \<Rightarrow> effect list \<times> state" where
  "output_fn E type msg options s =
     (case s of (g, l) \<Rightarrow>
        if thresh l \<ge> LogLevels (Level type) then
          (let l1 = add_error options l in
           if canClearScreen l then
             (if Some type = lastType g \<and> Some msg = lastMsg g then
                (let g1 = g\<lparr>sameCount := sameCount g + 1\<rparr>
                 in (clear E l @
                       [Console (method_of type)
                          [format E l type msg options,
                           yellow E (''(x'' @ show_nat (sameCount g1 + 1) @ '')'')]],
                     (g1, l1)))
              else
                (let g1 = g\<lparr>sameCount := 0, lastMsg := Some msg, lastType := Some type\<rparr>
                 in ((if opt_clear options then clear E l else []) @
                       [Console (method_of type) [format E l type msg options]],
                     (g1, l1))))
           else ([Console (method_of type) [format E l type msg options]], (g, l1)))
        else ([], s))"

subsection \<open>The methods of a logger\<close>

text \<open>
  Every method hands its options to \<^verbatim>\<open>output\<close> as they are, so an \<^verbatim>\<open>error\<close> field
  in the options of \<^verbatim>\<open>info\<close> or \<^verbatim>\<open>warn\<close> is read there as well; absent options are
  \<open>no_options\<close>.
\<close>

definition info :: "env \<Rightarrow> string \<Rightarrow> LogErrorOptions \<Rightarrow> state \<Rightarrow> effect list \<times> state" where
  "info E msg opts s = output_fn E Info msg opts s"

definition warn :: "env \<Rightarrow> string \<Rightarrow> LogErrorOptions \<Rightarrow> state \<Rightarrow> effect list \<times> state" where
  "warn E msg opts s =
     (case s of (g, l) \<Rightarrow> output_fn E Warn msg opts (g, l\<lparr>hasWarned := True\<rparr>))"

definition warnOnce :: "env \<Rightarrow> string \<Rightarrow> LogErrorOptions \<Rightarrow> state \<Rightarrow> effect list \<times> state" where
  "warnOnce E msg opts s =
     (case s of (g, l) \<Rightarrow>
        if msg \<in> warnedMessages l then ([], s)
        else (case output_fn E Warn msg opts (g, l\<lparr>hasWarned := True\<rparr>) of
                (fx, g', l') \<Rightarrow>
                  (fx, (g', l'\<lparr>warnedMessages := insert msg (warnedMessages l')\<rparr>))))"

definition error :: "env \<Rightarrow> string \<Rightarrow> LogErrorOptions \<Rightarrow> state \<Rightarrow> effect list \<times> state" where
  "error E msg opts s =
     (case s of (g, l) \<Rightarrow> output_fn E Error msg opts (g, l\<lparr>hasWarned := True\<rparr>))"

definition clearScreen_method :: "env \<Rightarrow> LogType \<Rightarrow> state \<Rightarrow> effect list \<times> state" where
  "clearScreen_method E type s =
     (case s of (g, l) \<Rightarrow>
        if thresh l \<ge> LogLevels (Level type) then (clear E l, s) else ([], s))"

definition hasErrorLogged :: "Logger \<Rightarrow> ErrorObj \<Rightarrow> bool" where
  "hasErrorLogged l e = (ident e \<in> loggedErrors l)"

subsection \<open>createLogger and the loggers of a process\<close>

text \<open>
  A process holds the module variables once and any number of logger objects; a logger is
  referred to by its position in the store. \<^verbatim>\<open>customLogger\<close> is a reference to a logger
  that exists already.
\<close>

record LoggerOptions =
  o_prefix :: "string option"
  allowClearScreen :: "bool option"
  customLogger :: "nat option"

definition default_options :: LoggerOptions where
  "default_options = \<lparr>o_prefix = None, allowClearScreen = None, customLogger = None\<rparr>"

record World =
  module_vars :: Module
  heap :: "Logger list"

definition truthy_string :: "string option \<Rightarrow> bool" where
  "truthy_string v = (case v of None \<Rightarrow> False | Some x \<Rightarrow> x \<noteq> [])"

definition new_logger :: "env \<Rightarrow> LogLevel option \<Rightarrow> LoggerOptions \<Rightarrow> Logger" where
  "new_logger E level options =
     \<lparr>prefix = (case o_prefix options of None \<Rightarrow> ''[vite]'' | Some p \<Rightarrow> p),
      thresh = LogLevels (case level of None \<Rightarrow> Level Info | Some v \<Rightarrow> v),
      canClearScreen =
        ((case allowClearScreen options of None \<Rightarrow> True | Some b \<Rightarrow> b)
         \<and> isTTY E \<and> \<not> truthy_string (env_CI E)),
      loggedErrors = {},
      warnedMessages = {},
      hasWarned = False\<rparr>"

definition createLogger ::
  "env \<Rightarrow> LogLevel option \<Rightarrow> LoggerOptions \<Rightarrow> World \<Rightarrow> nat \<times> World" where
  "createLogger E level options w =
     (case customLogger options of
        Some r \<Rightarrow> (r, w)
      | None \<Rightarrow> (length (heap w), w\<lparr>heap := heap w @ [new_logger E level options]\<rparr>))"

datatype Call =
    Call_info string LogErrorOptions
  | Call_warn string LogErrorOptions
  | Call_warnOnce string LogErrorOptions
  | Call_error string LogErrorOptions
  | Call_clearScreen LogType

fun call :: "env \<Rightarrow> Call \<Rightarrow> state \<Rightarrow> effect list \<times> state" where
  "call E (Call_info msg opts) s = info E msg opts s"
| "call E (Call_warn msg opts) s = warn E msg opts s"
| "call E (Call_warnOnce msg opts) s = warnOnce E msg opts s"
| "call E (Call_error msg opts) s = error E msg opts s"
| "call E (Call_clearScreen type) s = clearScreen_method E type s"

text \<open>
  A method call on the logger at reference \<open>r\<close>: it reads and writes the module variables
  and that logger's own fields. A reference outside the store does not occur in the
  program; the model answers \<open>None\<close> there.
\<close>

definition invoke :: "env \<Rightarrow> nat \<Rightarrow> Call \<Rightarrow> World \<Rightarrow> (effect list \<times> World) option" where
  "invoke E r c w =
     (if r < length (heap w) then
        (case call E c (module_vars w, heap w ! r) of
           (fx, g', l') \<Rightarrow> Some (fx, w\<lparr>module_vars := g', heap := (heap w)[r := l']\<rparr>))
      else None)"

text \<open>A run of calls on one logger, each with its own surroundings.\<close>

fun calls :: "(env \<times> Call) list \<Rightarrow> state \<Rightarrow> effect list list \<times> state" where
  "calls [] s = ([], s)"
| "calls ((E, c) # cs) s =
     (case call E c s of
        (fx, s') \<Rightarrow> (case calls cs s' of (fxs, s'') \<Rightarrow> (fx # fxs, s'')))"

section \<open>The URL reporter\<close>

subsection \<open>Strings\<close>

text \<open>\<^verbatim>\<open>String.prototype.includes\<close>: the second string occurs in the first.\<close>

fun includes_str :: "string \<Rightarrow> string \<Rightarrow> bool" where
  "includes_str [] sub = (sub = [])"
| "includes_str (c # cs) sub = (Sublist.prefix sub (c # cs) \<or> includes_str cs sub)"

text \<open>
  \<^verbatim>\<open>String.prototype.replace\<close> with a string pattern replaces the first occurrence,
  and expands in the replacement the patterns \<^verbatim>\<open>$$\<close>, \<^verbatim>\<open>$&\<close>, the dollar with a
  backquote (the text before the match) and the dollar with a quote (the text after it);
  a string pattern has no groups, so every other dollar stays.
\<close>

fun GetSubstitution :: "string \<Rightarrow> string \<Rightarrow> string \<Rightarrow> string \<Rightarrow> string" where
  "GetSubstitution m b a [] = []"
| "GetSubstitution m b a [c] = [c]"
| "GetSubstitution m b a (c # d # r) =
     (if c = CHR ''$'' \<and> d = CHR ''$'' then CHR ''$'' # GetSubstitution m b a r
      else if c = CHR ''$'' \<and> d = CHR ''&'' then m @ GetSubstitution m b a r
      else if c = CHR ''$'' \<and> d = CHR 0x60 then b @ GetSubstitution m b a r
      else if c = CHR ''$'' \<and> d = CHR 0x27 then a @ GetSubstitution m b a r
      else c # GetSubstitution m b a (d # r))"

fun find_first :: "string \<Rightarrow> string \<Rightarrow> (string \<times> string) option" where
  "find_first [] pat = (if pat = [] then Some ([], []) else None)"
| "find_first (c # cs) pat =
     (if Sublist.prefix pat (c # cs) then Some ([], drop (length pat) (c # cs))
      else (case find_first cs pat of
              None \<Rightarrow> None
            | Some (b, a) \<Rightarrow> Some (c # b, a)))"

definition replace :: "string \<Rightarrow> string \<Rightarrow> string \<Rightarrow> string" where
  "replace s pat rep =
     (case find_first s pat of
        None \<Rightarrow> s
      | Some (b, a) \<Rightarrow> b @ GetSubstitution pat b a rep @ a)"

subsection \<open>Addresses\<close>

text \<open>
  Modelled from the spec: the constants \<^verbatim>\<open>DEFAULT_IPV4_ADDR\<close> and
  \<^verbatim>\<open>DEFAULT_IPV6_ADDR\<close> of \<^verbatim>\<open>./constants\<close>, which the spec gives as the IPv4
  and the IPv6 literal for listening on all interfaces.
\<close>

definition DEFAULT_IPV4_ADDR :: string where
  "DEFAULT_IPV4_ADDR = ''0.0.0.0''"

definition DEFAULT_IPV6_ADDR :: string where
  "DEFAULT_IPV6_ADDR = ''::''"

text \<open>The type \<^verbatim>\<open>Hostname\<close> of \<^verbatim>\<open>./utils\<close>, as \<^verbatim>\<open>printServerUrls\<close> reads it.\<close>

record Hostname =
  host :: "string option"
  name :: string

datatype Family = IPv4 | IPv6

record NetworkInterfaceInfo =
  address :: string
  family :: Family

subsection \<open>printServerUrls\<close>

text \<open>The callback of \<^verbatim>\<open>filter\<close> (lines 194 to 221).\<close>

definition keep_detail :: "Hostname \<Rightarrow> NetworkInterfaceInfo \<Rightarrow> bool" where
  "keep_detail hostname detail =
     (if address detail = [] then False
      else if family detail = IPv6 then
        (case host hostname of
           None \<Rightarrow> False
         | Some h \<Rightarrow> h \<noteq> [] \<and> includes_str h (address detail) \<and> h \<noteq> ''::'')
      else
        (let isIpv4DefaultAddress = includes_str (address detail) ''127.0.0.1''
         in (case host hostname of
               None \<Rightarrow> True
             | Some h \<Rightarrow>
                 h = DEFAULT_IPV4_ADDR \<or> h = DEFAULT_IPV6_ADDR
                 \<or> includes_str h (address detail)
                 \<or> (isIpv4DefaultAddress \<and> h \<noteq> ''::1''))))"

text \<open>The callback of \<^verbatim>\<open>map\<close> (lines 222 to 233).\<close>

definition url_line ::
  "env \<Rightarrow> Hostname \<Rightarrow> string \<Rightarrow> nat \<Rightarrow> string \<Rightarrow> NetworkInterfaceInfo \<Rightarrow> string" where
  "url_line E hostname protocol port base detail =
     (let type = (if includes_str (address detail) ''127.0.0.1'' \<or> includes_str (address detail) ''::1''
                  then ''Local:   '' else ''Network: '');
          host0 = replace (address detail) ''127.0.0.1'' (name hostname);
          host1 = (if includes_str host0 '':'' then ''['' @ host0 @ '']'' else host0);
          url = protocol @ ''://'' @ host1 @ '':'' @ bold E (show_nat port) @ base
      in ''  > '' @ type @ '' '' @ cyan E url)"

text \<open>
  \<^verbatim>\<open>Object.values(os.networkInterfaces()).flatMap((nInterface) => nInterface ?? [])\<close>:
  the value of an interface name is a list of descriptors or \<^verbatim>\<open>undefined\<close>.
\<close>

definition flat_interfaces :: "NetworkInterfaceInfo list option list \<Rightarrow> NetworkInterfaceInfo list" where
  "flat_interfaces nis = concat (map (\<lambda>n. case n of None \<Rightarrow> [] | Some ds \<Rightarrow> ds) nis)"

text \<open>
  \<^verbatim>\<open>printServerUrls\<close>, as the list of the messages it passes to \<^verbatim>\<open>info\<close>, in order.
\<close>

definition printServerUrls ::
  "env \<Rightarrow> NetworkInterfaceInfo list option list \<Rightarrow> Hostname \<Rightarrow> string \<Rightarrow> nat \<Rightarrow> string
   \<Rightarrow> string list" where
  "printServerUrls E nis hostname protocol port base =
     (if host hostname = Some ''127.0.0.1'' then
        (let url = protocol @ ''://'' @ name hostname @ '':'' @ bold E (show_nat port) @ base
         in [''  > Local: '' @ cyan E url] @
            (if name hostname \<noteq> ''127.0.0.1''
             then [''  > Network: '' @ dim E ''use `--host` to expose'']
             else []))
      else
        map (url_line E hostname protocol port base)
          (filter (keep_detail hostname) (flat_interfaces nis)))"

subsection \<open>printCommonServerUrls\<close>

text \<open>
  What \<^verbatim>\<open>server.address()\<close> gives: \<^verbatim>\<open>null\<close>, the name of a pipe, or an
  \<^verbatim>\<open>AddressInfo\<close>.
\<close>

record AddressInfo =
  ai_address :: string
  ai_family :: string
  ai_port :: nat

datatype ServerAddress = Addr_null | Addr_string string | Addr_info AddressInfo

text \<open>\<^verbatim>\<open>(x: any): x is AddressInfo => x?.address\<close>, read for its truth value.\<close>

fun isAddressInfo :: "ServerAddress \<Rightarrow> bool" where
  "isAddressInfo Addr_null = False"
| "isAddressInfo (Addr_string x) = False"
| "isAddressInfo (Addr_info x) = (ai_address x \<noteq> [])"

fun address_port :: "ServerAddress \<Rightarrow> nat" where
  "address_port (Addr_info x) = ai_port x"
| "address_port _ = 0"

text \<open>
  The options and the configuration, as far as the function reads them.
  \<^verbatim>\<open>resolveHostname\<close> of \<^verbatim>\<open>./utils\<close> is a parameter.
\<close>

record 'h CommonServerOptions =
  so_host :: 'h
  so_https :: bool

text \<open>The messages \<^verbatim>\<open>printCommonServerUrls\<close> passes to \<^verbatim>\<open>config.logger.info\<close>.\<close>

definition printCommonServerUrls_msgs ::
  "env \<Rightarrow> NetworkInterfaceInfo list option list \<Rightarrow> ('h \<Rightarrow> Hostname) \<Rightarrow> ServerAddress
   \<Rightarrow> 'h CommonServerOptions \<Rightarrow> string \<Rightarrow> string list" where
  "printCommonServerUrls_msgs E nis resolveHostname addr options base =
     (if isAddressInfo addr then
        (let hostname = resolveHostname (so_host options);
             protocol = (if so_https options then ''https'' else ''http'')
         in printServerUrls E nis hostname protocol (address_port addr) base)
      else [])"

text \<open>Each message goes to \<^verbatim>\<open>info\<close> with no options.\<close>

fun info_each :: "env \<Rightarrow> string list \<Rightarrow> state \<Rightarrow> effect list \<times> state" where
  "info_each E [] s = ([], s)"
| "info_each E (m # ms) s =
     (case info E m no_options s of
        (fx, s') \<Rightarrow> (case info_each E ms s' of (fx', s'') \<Rightarrow> (fx @ fx', s'')))"

definition printCommonServerUrls ::
  "env \<Rightarrow> NetworkInterfaceInfo list option list \<Rightarrow> ('h \<Rightarrow> Hostname) \<Rightarrow> ServerAddress
   \<Rightarrow> 'h CommonServerOptions \<Rightarrow> string \<Rightarrow> state \<Rightarrow> effect list \<times> state" where
  "printCommonServerUrls E nis resolveHostname addr options base s =
     info_each E (printCommonServerUrls_msgs E nis resolveHostname addr options base) s"

section \<open>Notions used to state the properties\<close>

text \<open>The call of the method that logs at a given severity.\<close>

fun log_call :: "LogType \<Rightarrow> string \<Rightarrow> LogErrorOptions \<Rightarrow> Call" where
  "log_call Info msg opts = Call_info msg opts"
| "log_call Warn msg opts = Call_warn msg opts"
| "log_call Error msg opts = Call_error msg opts"

text \<open>
  In the words of the spec: what call number \<open>n\<close> prints in a run of calls with one
  severity and message that starts with a first print. Call 0 prints the formatted
  message, after clearing the screen if \<^verbatim>\<open>options.clear\<close> is set; call \<open>n \<ge> 1\<close>, the
  \<open>n\<close>-th repeat, clears the screen and prints the formatted message followed by the
  suffix \<^verbatim>\<open>(x<n+1>)\<close> in yellow.
\<close>

definition collapsed_print ::
  "LogType \<Rightarrow> string \<Rightarrow> Logger \<Rightarrow> env \<times> LogErrorOptions \<Rightarrow> nat \<Rightarrow> effect list" where
  "collapsed_print t m l r n =
     (case r of (E, opts) \<Rightarrow>
        if n = 0 then
          (if opt_clear opts then clearScreen E else []) @
            [Console (method_of t) [format E l t m opts]]
        else
          clearScreen E @
            [Console (method_of t)
               [format E l t m opts, yellow E (''(x'' @ show_nat (n + 1) @ '')'')]])"

text \<open>A run of method calls on the loggers of a process, each on the logger named.\<close>

fun invokes :: "(env \<times> nat \<times> Call) list \<Rightarrow> World \<Rightarrow> (effect list list \<times> World) option" where
  "invokes [] w = Some ([], w)"
| "invokes ((E, r, c) # cs) w =
     (case invoke E r c w of
        None \<Rightarrow> None
      | Some (fx, w') \<Rightarrow>
          (case invokes cs w' of
             None \<Rightarrow> None
           | Some (fxs, w'') \<Rightarrow> Some (fx # fxs, w'')))"

text \<open>An interactive terminal of 24 rows outside CI, with colours switched off.\<close>

definition tty_env :: env where
  "tty_env =
     \<lparr>cyan = id, yellow = id, red = id, bold = id, dim = id,
      isTTY = True, env_CI = None, rows = 24, now = ''12:00:00''\<rparr>"

text \<open>The same with the output piped: not a terminal.\<close>

definition pipe_env :: env where
  "pipe_env = tty_env\<lparr>isTTY := False\<rparr>"

text \<open>A process in which \<^verbatim>\<open>createLogger()\<close> has been called twice.\<close>

definition empty_world :: World where
  "empty_world = \<lparr>module_vars = initial_module, heap = []\<rparr>"

definition two_loggers :: World where
  "two_loggers =
     snd (createLogger tty_env None default_options
       (snd (createLogger tty_env None default_options empty_world)))"

section \<open>Properties of the logger\<close>

subsection \<open>What a call leaves alone\<close>

lemma output_fn_rejected:
  "thresh l < LogLevels (Level t) \<Longrightarrow> output_fn E t m opts (g, l) = ([], (g, l))"
  by (simp add: output_fn_def)

lemma format_prefix: "prefix l' = prefix l \<Longrightarrow> format E l' t m opts = format E l t m opts"
  by (cases t) (simp_all add: format_def)

lemma add_error_fields [simp]:
  "prefix (add_error opts l) = prefix l"
  "thresh (add_error opts l) = thresh l"
  "canClearScreen (add_error opts l) = canClearScreen l"
  "warnedMessages (add_error opts l) = warnedMessages l"
  "hasWarned (add_error opts l) = hasWarned l"
  by (simp_all add: add_error_def split: option.splits)

lemma output_fn_fields:
  assumes "output_fn E t m opts (g, l) = (fx, (g', l'))"
  shows "prefix l' = prefix l" "thresh l' = thresh l" "canClearScreen l' = canClearScreen l"
    "warnedMessages l' = warnedMessages l" "hasWarned l' = hasWarned l"
  using assms by (auto simp: output_fn_def Let_def split: if_splits)

lemma call_fields:
  assumes "call E c (g, l) = (fx, (g', l'))"
  shows "prefix l' = prefix l" "thresh l' = thresh l" "canClearScreen l' = canClearScreen l"
    "warnedMessages l \<subseteq> warnedMessages l'"
proof -
  have "prefix l' = prefix l \<and> thresh l' = thresh l \<and> canClearScreen l' = canClearScreen l
        \<and> warnedMessages l \<subseteq> warnedMessages l'"
  proof (cases c)
    case (Call_info m opts)
    with assms show ?thesis by (auto simp: info_def dest: output_fn_fields)
  next
    case (Call_warn m opts)
    with assms show ?thesis by (auto simp: warn_def dest: output_fn_fields)
  next
    case (Call_warnOnce m opts)
    with assms show ?thesis
      by (auto simp: warnOnce_def split: if_splits prod.splits dest: output_fn_fields)
  next
    case (Call_error m opts)
    with assms show ?thesis by (auto simp: error_def dest: output_fn_fields)
  next
    case (Call_clearScreen t)
    with assms show ?thesis by (auto simp: clearScreen_method_def split: if_splits)
  qed
  then show "prefix l' = prefix l" "thresh l' = thresh l" "canClearScreen l' = canClearScreen l"
    "warnedMessages l \<subseteq> warnedMessages l'" by simp_all
qed

lemma calls_warned:
  "calls cs (g, l) = (fxs, (g', l')) \<Longrightarrow> warnedMessages l \<subseteq> warnedMessages l'"
proof (induction cs arbitrary: g l fxs)
  case Nil
  then show ?case by simp
next
  case (Cons p cs)
  obtain E c where p: "p = (E, c)" by (cases p)
  obtain fx g1 l1 where st: "call E c (g, l) = (fx, (g1, l1))" by (metis prod_cases3)
  obtain fxs' where rest: "calls cs (g1, l1) = (fxs', (g', l'))"
    using Cons.prems p st by (auto split: prod.splits)
  from call_fields(4)[OF st] Cons.IH[OF rest] show ?case by blast
qed

text \<open>The three logging methods call \<^verbatim>\<open>output\<close>; two of them set \<^verbatim>\<open>hasWarned\<close> first.\<close>

lemma call_log_call:
  "call E (log_call t m opts) (g, l) =
     output_fn E t m opts (g, if t = Info then l else l\<lparr>hasWarned := True\<rparr>)"
  by (cases t) (simp_all add: info_def warn_def error_def)


lemma format_hasWarned [simp]: "format E (l\<lparr>hasWarned := b\<rparr>) t m opts = format E l t m opts"
  by (cases t) (simp_all add: format_def)

lemma show_nat_x2: "show_nat 2 = ''2''" by (simp add: show_nat.simps)

subsection \<open>Severity gating\<close>

text \<open>
  Claim C3. For every severity \<open>t\<close> and every message, the call of the method of severity
  \<open>t\<close> writes to the console if and only if the rank of \<open>t\<close> is at most the threshold
  of the logger; above the threshold the call does nothing at all to the terminal.
\<close>

theorem gating:
  "(fst (call E (log_call t msg opts) (g, l)) = []) = (thresh l < LogLevels (Level t))
   \<and> (\<exists>args. Console (method_of t) args \<in> set (fst (call E (log_call t msg opts) (g, l))))
       = (LogLevels (Level t) \<le> thresh l)"
  by (auto simp: call_log_call output_fn_def Let_def)

theorem gating_witness:
  "fst (call tty_env (log_call Info ''ready'' no_options)
          (initial_module, new_logger tty_env (Some (Level Warn)) default_options)) = []
   \<and> fst (call tty_env (log_call Warn ''ready'' no_options)
          (initial_module, new_logger tty_env (Some (Level Warn)) default_options))
       = [Console M_warn [''ready'']]"
  using gating [of tty_env Info "''ready''" no_options initial_module
                   "new_logger tty_env (Some (Level Warn)) default_options"]
  by (simp add: info_def warn_def output_fn_def new_logger_def default_options_def tty_env_def
        truthy_string_def no_options_def initial_module_def add_error_def method_of_def
        format_def)

subsection \<open>Logging when the screen may not be cleared\<close>

text \<open>
  Claim C9. On a logger that may not clear the screen, an accepted call of
  \<^verbatim>\<open>info\<close>, \<^verbatim>\<open>warn\<close> or \<^verbatim>\<open>error\<close> prints the formatted message alone, with
  no repeat suffix, and leaves \<^verbatim>\<open>lastType\<close>, \<^verbatim>\<open>lastMsg\<close> and \<^verbatim>\<open>sameCount\<close>
  as they were.
\<close>

theorem no_collapsing_without_clearing:
  assumes "\<not> canClearScreen l" and "LogLevels (Level t) \<le> thresh l"
  shows "fst (call E (log_call t msg opts) (g, l)) = [Console (method_of t) [format E l t msg opts]]
     \<and> fst (snd (call E (log_call t msg opts) (g, l))) = g"
  using assms by (cases t) (simp_all add: info_def warn_def error_def output_fn_def Let_def)

theorem no_collapsing_without_clearing_witness:
  "\<not> canClearScreen (new_logger pipe_env None default_options)
   \<and> LogLevels (Level Info) \<le> thresh (new_logger pipe_env None default_options)
   \<and> fst (call pipe_env (log_call Info ''ready'' no_options)
         (\<lparr>lastType = Some Info, lastMsg = Some ''ready'', sameCount = 0\<rparr>,
          new_logger pipe_env None default_options))
       = [Console M_log [''ready'']]
   \<and> fst (snd (call pipe_env (log_call Info ''ready'' no_options)
         (\<lparr>lastType = Some Info, lastMsg = Some ''ready'', sameCount = 0\<rparr>,
          new_logger pipe_env None default_options)))
       = \<lparr>lastType = Some Info, lastMsg = Some ''ready'', sameCount = 0\<rparr>"
  using no_collapsing_without_clearing [of "new_logger pipe_env None default_options" Info
          pipe_env "''ready''" no_options
          "\<lparr>lastType = Some Info, lastMsg = Some ''ready'', sameCount = 0\<rparr>"]
  by (simp add: new_logger_def default_options_def pipe_env_def tty_env_def
        truthy_string_def no_options_def format_def method_of_def info_def)
subsection \<open>warnOnce\<close>

lemma warnOnce_records:
  "warnOnce E msg opts (g, l) = (fx, (g', l')) \<Longrightarrow> msg \<in> warnedMessages l'"
  by (auto simp: warnOnce_def split: if_splits prod.splits)

lemma warnOnce_known:
  "msg \<in> warnedMessages l \<Longrightarrow> warnOnce E msg opts (g, l) = ([], (g, l))"
  by (simp add: warnOnce_def)

lemma warnOnce_new:
  "msg \<notin> warnedMessages l \<Longrightarrow>
   warnOnce E msg opts (g, l) =
     (case warn E msg opts (g, l) of
        (fx, g', l') \<Rightarrow> (fx, (g', l'\<lparr>warnedMessages := insert msg (warnedMessages l')\<rparr>)))"
  by (simp add: warnOnce_def warn_def)

text \<open>
  Claim C5. Once \<^verbatim>\<open>warnOnce\<close> has been called with a message, a later call of
  \<^verbatim>\<open>warnOnce\<close> with that message on the same logger, after any calls in between and with
  any options, prints nothing and changes nothing: neither \<^verbatim>\<open>hasWarned\<close> nor any other
  field of the logger nor the module variables. A call of \<^verbatim>\<open>warnOnce\<close> with a message
  not yet in \<^verbatim>\<open>warnedMessages\<close> does what \<^verbatim>\<open>warn\<close> does and then adds the message.
\<close>

theorem warnOnce_once:
  assumes first: "warnOnce E msg opts s = (fx, s1)"
    and between: "calls cs s1 = (fxs, s2)"
  shows "warnOnce E' msg opts' s2 = ([], s2)
     \<and> (msg \<notin> warnedMessages (snd s) \<longrightarrow>
          (fx, s1) = (case warn E msg opts s of
                        (fx0, g', l') \<Rightarrow>
                          (fx0, (g', l'\<lparr>warnedMessages := insert msg (warnedMessages l')\<rparr>))))"
proof -
  obtain g l where s: "s = (g, l)" by (cases s)
  obtain g1 l1 where s1: "s1 = (g1, l1)" by (cases s1)
  obtain g2 l2 where s2: "s2 = (g2, l2)" by (cases s2)
  have "msg \<in> warnedMessages l1"
    using first s s1 by (auto dest: warnOnce_records)
  moreover have "warnedMessages l1 \<subseteq> warnedMessages l2"
    using between s1 s2 by (auto dest: calls_warned)
  ultimately have "msg \<in> warnedMessages l2" by blast
  then have again: "warnOnce E' msg opts' s2 = ([], s2)"
    using s2 by (simp add: warnOnce_known)
  have "msg \<notin> warnedMessages (snd s) \<longrightarrow>
          (fx, s1) = (case warn E msg opts s of
                        (fx0, g', l') \<Rightarrow>
                          (fx0, (g', l'\<lparr>warnedMessages := insert msg (warnedMessages l')\<rparr>)))"
    using first s by (auto simp: warnOnce_new)
  with again show ?thesis by blast
qed

theorem warnOnce_once_witness:
  "warnOnce tty_env ''deprecated'' no_options
     (initial_module, new_logger tty_env None default_options)
     = ([Console M_warn [''deprecated'']],
        (\<lparr>lastType = Some Warn, lastMsg = Some ''deprecated'', sameCount = 0\<rparr>,
         \<lparr>prefix = ''[vite]'', thresh = 3, canClearScreen = True, loggedErrors = {},
          warnedMessages = {''deprecated''}, hasWarned = True\<rparr>))
   \<and> calls [(tty_env, Call_info ''ready'' no_options)]
       (\<lparr>lastType = Some Warn, lastMsg = Some ''deprecated'', sameCount = 0\<rparr>,
        \<lparr>prefix = ''[vite]'', thresh = 3, canClearScreen = True, loggedErrors = {},
         warnedMessages = {''deprecated''}, hasWarned = True\<rparr>)
     = ([[Console M_log [''ready'']]],
        (\<lparr>lastType = Some Info, lastMsg = Some ''ready'', sameCount = 0\<rparr>,
         \<lparr>prefix = ''[vite]'', thresh = 3, canClearScreen = True, loggedErrors = {},
          warnedMessages = {''deprecated''}, hasWarned = True\<rparr>))
   \<and> warnOnce tty_env ''deprecated'' no_options
       (\<lparr>lastType = Some Info, lastMsg = Some ''ready'', sameCount = 0\<rparr>,
        \<lparr>prefix = ''[vite]'', thresh = 3, canClearScreen = True, loggedErrors = {},
         warnedMessages = {''deprecated''}, hasWarned = True\<rparr>)
     = ([],
        (\<lparr>lastType = Some Info, lastMsg = Some ''ready'', sameCount = 0\<rparr>,
         \<lparr>prefix = ''[vite]'', thresh = 3, canClearScreen = True, loggedErrors = {},
          warnedMessages = {''deprecated''}, hasWarned = True\<rparr>))"
proof -
  have first: "warnOnce tty_env ''deprecated'' no_options
     (initial_module, new_logger tty_env None default_options)
     = ([Console M_warn [''deprecated'']],
        (\<lparr>lastType = Some Warn, lastMsg = Some ''deprecated'', sameCount = 0\<rparr>,
         \<lparr>prefix = ''[vite]'', thresh = 3, canClearScreen = True, loggedErrors = {},
          warnedMessages = {''deprecated''}, hasWarned = True\<rparr>))"
    by (simp add: warnOnce_def output_fn_def new_logger_def default_options_def tty_env_def
          truthy_string_def no_options_def initial_module_def add_error_def method_of_def
          format_def)
  have between: "calls [(tty_env, Call_info ''ready'' no_options)]
       (\<lparr>lastType = Some Warn, lastMsg = Some ''deprecated'', sameCount = 0\<rparr>,
        \<lparr>prefix = ''[vite]'', thresh = 3, canClearScreen = True, loggedErrors = {},
         warnedMessages = {''deprecated''}, hasWarned = True\<rparr>)
     = ([[Console M_log [''ready'']]],
        (\<lparr>lastType = Some Info, lastMsg = Some ''ready'', sameCount = 0\<rparr>,
         \<lparr>prefix = ''[vite]'', thresh = 3, canClearScreen = True, loggedErrors = {},
          warnedMessages = {''deprecated''}, hasWarned = True\<rparr>))"
    by (simp add: info_def output_fn_def tty_env_def no_options_def add_error_def
          method_of_def format_def)
  from warnOnce_once [OF first between, of tty_env no_options] first between
  show ?thesis by simp
qed

subsection \<open>Errors already logged\<close>

lemma loggedErrors_output_fn:
  "loggedErrors (snd (snd (output_fn E t msg opts (g, l)))) =
     (case opt_error opts of
        Some e \<Rightarrow> if LogLevels (Level t) \<le> thresh l
                  then insert (ident e) (loggedErrors l) else loggedErrors l
      | None \<Rightarrow> loggedErrors l)"
  by (simp add: output_fn_def Let_def add_error_def split: option.splits)

text \<open>
  Claim C2, as amended. A call of \<^verbatim>\<open>info\<close>, \<^verbatim>\<open>warn\<close> or \<^verbatim>\<open>error\<close> whose
  options hold an error adds the identity of that error to \<^verbatim>\<open>loggedErrors\<close> exactly
  when the call is accepted, that is when the rank of its severity is at most the
  threshold; a call suppressed by the threshold leaves \<^verbatim>\<open>loggedErrors\<close> as it was.
\<close>

theorem error_recorded_when_accepted:
  assumes "opt_error opts = Some e"
  shows "loggedErrors (snd (snd (call E (log_call t msg opts) (g, l)))) =
           (if LogLevels (Level t) \<le> thresh l
            then insert (ident e) (loggedErrors l) else loggedErrors l)"
  using assms by (simp add: call_log_call loggedErrors_output_fn)

theorem error_recorded_when_accepted_witness:
  "opt_error \<lparr>opt_clear = False, opt_timestamp = False,
              opt_error = Some \<lparr>ident = 7, message = ''boom''\<rparr>\<rparr>
     = Some \<lparr>ident = 7, message = ''boom''\<rparr>
   \<and> loggedErrors (snd (snd (call tty_env
        (log_call Error ''failed''
           \<lparr>opt_clear = False, opt_timestamp = False,
            opt_error = Some \<lparr>ident = 7, message = ''boom''\<rparr>\<rparr>)
        (initial_module, new_logger tty_env (Some (Level Error)) default_options)))) = {7}
   \<and> loggedErrors (snd (snd (call tty_env
        (log_call Warn ''failed''
           \<lparr>opt_clear = False, opt_timestamp = False,
            opt_error = Some \<lparr>ident = 7, message = ''boom''\<rparr>\<rparr>)
        (initial_module, new_logger tty_env (Some (Level Error)) default_options)))) = {}"
  using error_recorded_when_accepted [of
          "\<lparr>opt_clear = False, opt_timestamp = False,
            opt_error = Some \<lparr>ident = 7, message = ''boom''\<rparr>\<rparr>"
          "\<lparr>ident = 7, message = ''boom''\<rparr>" tty_env Error "''failed''" initial_module
          "new_logger tty_env (Some (Level Error)) default_options"]
    error_recorded_when_accepted [of
          "\<lparr>opt_clear = False, opt_timestamp = False,
            opt_error = Some \<lparr>ident = 7, message = ''boom''\<rparr>\<rparr>"
          "\<lparr>ident = 7, message = ''boom''\<rparr>" tty_env Warn "''failed''" initial_module
          "new_logger tty_env (Some (Level Error)) default_options"]
  by (simp add: new_logger_def)

text \<open>
  The claim as the spec words it fails: on a logger of level \<^verbatim>\<open>silent\<close>, the call
  \<^verbatim>\<open>error('failed', {error: e})\<close> is suppressed and \<open>e\<close> is not recorded.
\<close>

theorem suppressed_error_not_recorded:
  "\<not> hasErrorLogged
       (snd (snd (call tty_env
          (log_call Error ''failed''
             \<lparr>opt_clear = False, opt_timestamp = False,
              opt_error = Some \<lparr>ident = 7, message = ''boom''\<rparr>\<rparr>)
          (initial_module, new_logger tty_env (Some Silent) default_options))))
       \<lparr>ident = 7, message = ''boom''\<rparr>"
  by (simp add: hasErrorLogged_def error_def output_fn_def new_logger_def)

text \<open>
  Claim C6, as amended. On a logger whose level is not \<^verbatim>\<open>silent\<close>, after
  \<^verbatim>\<open>error(msg, {error: e})\<close> the test \<^verbatim>\<open>hasErrorLogged\<close> answers true for \<open>e\<close>, and
  for an object of another identity it answers what it answered before, whatever the
  message of that object; on a logger just created it answers false for every object.
\<close>

theorem hasErrorLogged_by_identity:
  assumes "LogLevels (Level Error) \<le> thresh l" and "opt_error opts = Some e"
  shows "hasErrorLogged (snd (snd (error E msg opts (g, l)))) x
           = (ident x = ident e \<or> hasErrorLogged l x)
     \<and> \<not> hasErrorLogged (new_logger E0 level options) x"
  using assms
  by (auto simp: hasErrorLogged_def error_def loggedErrors_output_fn new_logger_def)

theorem hasErrorLogged_by_identity_witness:
  "LogLevels (Level Error) \<le> thresh (new_logger tty_env None default_options)
   \<and> \<not> hasErrorLogged (new_logger tty_env None default_options)
         \<lparr>ident = 1, message = ''boom''\<rparr>
   \<and> hasErrorLogged
       (snd (snd (error tty_env ''failed''
          \<lparr>opt_clear = False, opt_timestamp = False,
           opt_error = Some \<lparr>ident = 1, message = ''boom''\<rparr>\<rparr>
          (initial_module, new_logger tty_env None default_options))))
       \<lparr>ident = 1, message = ''boom''\<rparr>
   \<and> \<not> hasErrorLogged
       (snd (snd (error tty_env ''failed''
          \<lparr>opt_clear = False, opt_timestamp = False,
           opt_error = Some \<lparr>ident = 1, message = ''boom''\<rparr>\<rparr>
          (initial_module, new_logger tty_env None default_options))))
       \<lparr>ident = 2, message = ''boom''\<rparr>"
  using hasErrorLogged_by_identity [of "new_logger tty_env None default_options"
          "\<lparr>opt_clear = False, opt_timestamp = False,
            opt_error = Some \<lparr>ident = 1, message = ''boom''\<rparr>\<rparr>"
          "\<lparr>ident = 1, message = ''boom''\<rparr>" tty_env "''failed''" initial_module
          "\<lparr>ident = 1, message = ''boom''\<rparr>" tty_env None default_options]
    hasErrorLogged_by_identity [of "new_logger tty_env None default_options"
          "\<lparr>opt_clear = False, opt_timestamp = False,
            opt_error = Some \<lparr>ident = 1, message = ''boom''\<rparr>\<rparr>"
          "\<lparr>ident = 1, message = ''boom''\<rparr>" tty_env "''failed''" initial_module
          "\<lparr>ident = 2, message = ''boom''\<rparr>" tty_env None default_options]
  by (simp add: new_logger_def)

text \<open>
  The claim as the spec words it fails on a logger of level \<^verbatim>\<open>silent\<close>: there
  \<^verbatim>\<open>hasErrorLogged(e)\<close> is false before \<^verbatim>\<open>error(msg, {error: e})\<close> and false after.
\<close>

theorem silent_logger_never_records:
  "hasErrorLogged
     (snd (snd (error pipe_env ''build failed''
        \<lparr>opt_clear = False, opt_timestamp = True,
         opt_error = Some \<lparr>ident = 0, message = ''ENOENT''\<rparr>\<rparr>
        (initial_module, new_logger pipe_env (Some Silent) default_options))))
     \<lparr>ident = 0, message = ''ENOENT''\<rparr> = False"
  by (simp add: hasErrorLogged_def error_def output_fn_def new_logger_def)

subsection \<open>Collapsing of repeated messages\<close>

lemma output_fn_repeat:
  assumes "canClearScreen l" and "LogLevels (Level t) \<le> thresh l"
    and "lastType g = Some t" and "lastMsg g = Some m"
  shows "output_fn E t m opts (g, l) =
     (clearScreen E @
        [Console (method_of t)
           [format E l t m opts, yellow E (''(x'' @ show_nat (sameCount g + 2) @ '')'')]],
      (g\<lparr>sameCount := sameCount g + 1\<rparr>, add_error opts l))"
  using assms by (simp add: output_fn_def Let_def clear_def)

lemma output_fn_first:
  assumes "canClearScreen l" and "LogLevels (Level t) \<le> thresh l"
    and "lastType g \<noteq> Some t \<or> lastMsg g \<noteq> Some m"
  shows "output_fn E t m opts (g, l) =
     ((if opt_clear opts then clearScreen E else []) @
        [Console (method_of t) [format E l t m opts]],
      (g\<lparr>sameCount := 0, lastMsg := Some m, lastType := Some t\<rparr>, add_error opts l))"
  using assms by (auto simp: output_fn_def Let_def clear_def)

lemma calls_Cons:
  "calls ((E, c) # cs) s =
     (fst (call E c s) # fst (calls cs (snd (call E c s))),
      snd (calls cs (snd (call E c s))))"
  by (simp split: prod.splits)

text \<open>The calls of one severity and message, each with its surroundings and options.\<close>

lemma repeats_run:
  assumes "canClearScreen l" and "LogLevels (Level t) \<le> thresh l"
    and "lastType g = Some t" and "lastMsg g = Some m" and "n < length rs"
  shows "fst (calls (map (\<lambda>(E, opts). (E, log_call t m opts)) rs) (g, l)) ! n =
     clearScreen (fst (rs ! n)) @
       [Console (method_of t)
          [format (fst (rs ! n)) l t m (snd (rs ! n)),
           yellow (fst (rs ! n)) (''(x'' @ show_nat (sameCount g + n + 2) @ '')'')]]"
  using assms
proof (induction rs arbitrary: g l n)
  case Nil
  then show ?case by simp
next
  case (Cons r rs)
  obtain E opts where r: "r = (E, opts)" by (cases r)
  define l0 where "l0 = (if t = Info then l else l\<lparr>hasWarned := True\<rparr>)"
  have l0: "canClearScreen l0" "LogLevels (Level t) \<le> thresh l0" "prefix l0 = prefix l"
    using Cons.prems by (auto simp: l0_def)
  have step: "call E (log_call t m opts) (g, l) =
     (clearScreen E @
        [Console (method_of t)
           [format E l t m opts, yellow E (''(x'' @ show_nat (sameCount g + 2) @ '')'')]],
      (g\<lparr>sameCount := sameCount g + 1\<rparr>, add_error opts l0))"
    using output_fn_repeat [OF l0(1,2) Cons.prems(3,4), of E opts] format_prefix [OF l0(3)]
    by (simp add: call_log_call l0_def [symmetric])
  show ?case
  proof (cases n)
    case 0
    then show ?thesis using step r by (simp add: calls_Cons del: calls.simps)
  next
    case (Suc k)
    have k: "k < length rs" using Cons.prems(5) Suc by simp
    have IH: "fst (calls (map (\<lambda>(E, opts). (E, log_call t m opts)) rs)
                    (g\<lparr>sameCount := sameCount g + 1\<rparr>, add_error opts l0)) ! k =
       clearScreen (fst (rs ! k)) @
         [Console (method_of t)
            [format (fst (rs ! k)) (add_error opts l0) t m (snd (rs ! k)),
             yellow (fst (rs ! k))
               (''(x'' @ show_nat (sameCount (g\<lparr>sameCount := sameCount g + 1\<rparr>) + k + 2) @ '')'')]]"
      using Cons.IH [of "add_error opts l0" "g\<lparr>sameCount := sameCount g + 1\<rparr>" k]
        l0 Cons.prems(3,4) k by simp
    have fmt: "format (fst (rs ! k)) (add_error opts l0) t m (snd (rs ! k))
                 = format (fst (rs ! k)) l t m (snd (rs ! k))"
      using format_prefix [of "add_error opts l0" l] l0(3) by simp
    show ?thesis using step r Suc IH fmt by (simp add: calls_Cons del: calls.simps)
  qed
qed

lemma repeats_final:
  assumes "canClearScreen l" and "LogLevels (Level t) \<le> thresh l"
    and "lastType g = Some t" and "lastMsg g = Some m"
    and "calls (map (\<lambda>(E, opts). (E, log_call t m opts)) rs) (g, l) = (fxs, (g', l'))"
  shows "g' = g\<lparr>sameCount := sameCount g + length rs\<rparr>
     \<and> canClearScreen l' \<and> thresh l' = thresh l \<and> prefix l' = prefix l"
  using assms
proof (induction rs arbitrary: g l fxs)
  case Nil
  then show ?case by simp
next
  case (Cons r rs)
  obtain E opts where r: "r = (E, opts)" by (cases r)
  define l0 where "l0 = (if t = Info then l else l\<lparr>hasWarned := True\<rparr>)"
  have l0: "canClearScreen l0" "LogLevels (Level t) \<le> thresh l0" "prefix l0 = prefix l"
    "thresh l0 = thresh l"
    using Cons.prems by (auto simp: l0_def)
  have step: "snd (call E (log_call t m opts) (g, l)) =
      (g\<lparr>sameCount := sameCount g + 1\<rparr>, add_error opts l0)"
    using output_fn_repeat [OF l0(1,2) Cons.prems(3,4), of E opts]
    by (simp add: call_log_call l0_def [symmetric])
  obtain fxs' where rest: "calls (map (\<lambda>(E, opts). (E, log_call t m opts)) rs)
      (g\<lparr>sameCount := sameCount g + 1\<rparr>, add_error opts l0) = (fxs', (g', l'))"
    using Cons.prems(5) r step by (simp add: calls_Cons del: calls.simps) (metis prod.collapse)
  have "g' = (g\<lparr>sameCount := sameCount g + 1\<rparr>)
               \<lparr>sameCount := sameCount (g\<lparr>sameCount := sameCount g + 1\<rparr>) + length rs\<rparr>
     \<and> canClearScreen l' \<and> thresh l' = thresh (add_error opts l0)
     \<and> prefix l' = prefix (add_error opts l0)"
    using Cons.IH [OF _ _ _ _ rest] l0 Cons.prems(3,4) by simp
  then show ?case using l0 by simp
qed


lemma fresh_run:
  assumes cc: "canClearScreen l" and acc: "LogLevels (Level t) \<le> thresh l"
    and fresh: "lastType g \<noteq> Some t \<or> lastMsg g \<noteq> Some m"
    and n: "n < length rs"
  shows "fst (calls (map (\<lambda>(E, opts). (E, log_call t m opts)) rs) (g, l)) ! n =
           collapsed_print t m l (rs ! n) n"
    and "\<exists>l'. snd (calls (map (\<lambda>(E, opts). (E, log_call t m opts)) rs) (g, l)) =
           (\<lparr>lastType = Some t, lastMsg = Some m, sameCount = length rs - 1\<rparr>, l')
           \<and> canClearScreen l' \<and> thresh l' = thresh l \<and> prefix l' = prefix l"
proof -
  obtain r rs0 where rs: "rs = r # rs0" using n by (cases rs) auto
  obtain E opts where r: "r = (E, opts)" by (cases r)
  define l0 where "l0 = (if t = Info then l else l\<lparr>hasWarned := True\<rparr>)"
  define g1 where "g1 = g\<lparr>sameCount := 0, lastMsg := Some m, lastType := Some t\<rparr>"
  define l1 where "l1 = add_error opts l0"
  have l0: "canClearScreen l0" "LogLevels (Level t) \<le> thresh l0" "prefix l0 = prefix l"
    "thresh l0 = thresh l"
    using cc acc by (auto simp: l0_def)
  have step: "call E (log_call t m opts) (g, l) =
     ((if opt_clear opts then clearScreen E else []) @
        [Console (method_of t) [format E l t m opts]], (g1, l1))"
    using output_fn_first [OF l0(1,2) fresh, of E opts] format_prefix [OF l0(3)]
    by (simp add: call_log_call l0_def [symmetric] g1_def l1_def)
  have l1: "canClearScreen l1" "LogLevels (Level t) \<le> thresh l1" "prefix l1 = prefix l"
    "thresh l1 = thresh l"
    using l0 by (simp_all add: l1_def)
  have g1: "lastType g1 = Some t" "lastMsg g1 = Some m" "sameCount g1 = 0"
    by (simp_all add: g1_def)
  have g1_eq: "g1 = \<lparr>lastType = Some t, lastMsg = Some m, sameCount = 0\<rparr>"
    by (simp add: g1_def)
  show "fst (calls (map (\<lambda>(E, opts). (E, log_call t m opts)) rs) (g, l)) ! n =
           collapsed_print t m l (rs ! n) n"
  proof (cases n)
    case 0
    then show ?thesis
      using step rs r by (simp add: calls_Cons collapsed_print_def del: calls.simps)
  next
    case (Suc j)
    have j: "j < length rs0" using n rs Suc by simp
    obtain E' opts' where rj: "rs0 ! j = (E', opts')" by (cases "rs0 ! j")
    have "fst (calls (map (\<lambda>(E, opts). (E, log_call t m opts)) rs0) (g1, l1)) ! j =
       clearScreen (fst (rs0 ! j)) @
         [Console (method_of t)
            [format (fst (rs0 ! j)) l1 t m (snd (rs0 ! j)),
             yellow (fst (rs0 ! j)) (''(x'' @ show_nat (sameCount g1 + j + 2) @ '')'')]]"
      using repeats_run [OF l1(1,2) g1(1,2) j] .
    moreover have "format E' l1 t m opts' = format E' l t m opts'"
      using format_prefix [OF l1(3)] .
    ultimately show ?thesis
      using step rs r Suc rj g1(3)
      by (simp add: calls_Cons collapsed_print_def del: calls.simps)
  qed
  obtain fxs g' l' where fin:
    "calls (map (\<lambda>(E, opts). (E, log_call t m opts)) rs0) (g1, l1) = (fxs, (g', l'))"
    by (metis prod_cases3)
  have "g' = g1\<lparr>sameCount := sameCount g1 + length rs0\<rparr>
     \<and> canClearScreen l' \<and> thresh l' = thresh l1 \<and> prefix l' = prefix l1"
    using repeats_final [OF l1(1,2) g1(1,2) fin] .
  then have "g' = \<lparr>lastType = Some t, lastMsg = Some m, sameCount = length rs - 1\<rparr>
     \<and> canClearScreen l' \<and> thresh l' = thresh l \<and> prefix l' = prefix l"
    using l1 rs by (simp add: g1_eq)
  then show "\<exists>l'. snd (calls (map (\<lambda>(E, opts). (E, log_call t m opts)) rs) (g, l)) =
           (\<lparr>lastType = Some t, lastMsg = Some m, sameCount = length rs - 1\<rparr>, l')
           \<and> canClearScreen l' \<and> thresh l' = thresh l \<and> prefix l' = prefix l"
    using step rs r fin by (simp add: calls_Cons del: calls.simps)
qed

lemma collapsed_print_prefix:
  "prefix l' = prefix l \<Longrightarrow> collapsed_print t m l' r n = collapsed_print t m l r n"
  using format_prefix [of l' l] by (cases r) (simp add: collapsed_print_def)

text \<open>
  Claim C4. On a logger that may clear the screen, take a run of accepted calls of one
  severity and message that starts with a first print, that is with the pair differing
  from the pair the module holds. The first call prints the message without a suffix, and
  for every \<open>n \<ge> 1\<close> call number \<open>n\<close> of the run, the \<open>n\<close>-th repeat, clears the screen and
  prints the message with the suffix \<^verbatim>\<open>(x<n+1>)\<close>. A following run of accepted calls
  with another severity or message starts afresh: its first call prints without a suffix
  and sets the counter to 0, and its \<open>k\<close>-th repeat prints \<^verbatim>\<open>(x<k+1>)\<close>.
\<close>

theorem repeat_suffix:
  assumes cc: "canClearScreen l"
    and acc: "LogLevels (Level t) \<le> thresh l"
    and acc': "LogLevels (Level t') \<le> thresh l"
    and fresh: "lastType g \<noteq> Some t \<or> lastMsg g \<noteq> Some m"
    and differs: "t' \<noteq> t \<or> m' \<noteq> m"
    and n: "n < length rs"
    and k: "k < length rs'"
  shows "fst (calls (map (\<lambda>(E, opts). (E, log_call t m opts)) rs) (g, l)) ! n
           = collapsed_print t m l (rs ! n) n
     \<and> fst (calls (map (\<lambda>(E, opts). (E, log_call t' m' opts)) rs')
              (snd (calls (map (\<lambda>(E, opts). (E, log_call t m opts)) rs) (g, l)))) ! k
           = collapsed_print t' m' l (rs' ! k) k
     \<and> sameCount (fst (snd (calls (map (\<lambda>(E, opts). (E, log_call t' m' opts)) (take 1 rs'))
              (snd (calls (map (\<lambda>(E, opts). (E, log_call t m opts)) rs) (g, l)))))) = 0"
proof -
  obtain l1 where mid:
    "snd (calls (map (\<lambda>(E, opts). (E, log_call t m opts)) rs) (g, l)) =
       (\<lparr>lastType = Some t, lastMsg = Some m, sameCount = length rs - 1\<rparr>, l1)"
    and l1: "canClearScreen l1" "thresh l1 = thresh l" "prefix l1 = prefix l"
    using fresh_run(2) [OF cc acc fresh n] by blast
  define g1 where "g1 = \<lparr>lastType = Some t, lastMsg = Some m, sameCount = length rs - 1\<rparr>"
  have fresh': "lastType g1 \<noteq> Some t' \<or> lastMsg g1 \<noteq> Some m'"
    using differs by (auto simp: g1_def)
  have acc1: "LogLevels (Level t') \<le> thresh l1" using acc' l1 by simp
  have second: "fst (calls (map (\<lambda>(E, opts). (E, log_call t' m' opts)) rs') (g1, l1)) ! k
           = collapsed_print t' m' l (rs' ! k) k"
    using fresh_run(1) [OF l1(1) acc1 fresh' k] collapsed_print_prefix [OF l1(3)] by simp
  have k1: "0 < length (take 1 rs')" using k by (cases rs') auto
  have "\<exists>l2. snd (calls (map (\<lambda>(E, opts). (E, log_call t' m' opts)) (take 1 rs')) (g1, l1)) =
           (\<lparr>lastType = Some t', lastMsg = Some m', sameCount = length (take 1 rs') - 1\<rparr>, l2)
           \<and> canClearScreen l2 \<and> thresh l2 = thresh l1 \<and> prefix l2 = prefix l1"
    using fresh_run(2) [OF l1(1) acc1 fresh' k1] .
  then have third: "sameCount (fst (snd (calls
       (map (\<lambda>(E, opts). (E, log_call t' m' opts)) (take 1 rs')) (g1, l1)))) = 0"
    using k by (cases rs') auto
  show ?thesis
    using fresh_run(1) [OF cc acc fresh n] second third mid by (simp add: g1_def)
qed


theorem repeat_suffix_witness:
  "canClearScreen (new_logger tty_env None default_options)
   \<and> LogLevels (Level Info) \<le> thresh (new_logger tty_env None default_options)
   \<and> lastType initial_module = None
   \<and> fst (calls (map (\<lambda>(E, opts). (E, log_call Info ''hmr update'' opts))
                 [(tty_env, no_options), (tty_env, no_options), (tty_env, no_options)])
            (initial_module, new_logger tty_env None default_options)) ! 2
       = clearScreen tty_env @ [Console M_log [''hmr update'', ''(x3)'']]
   \<and> fst (calls (map (\<lambda>(E, opts). (E, log_call Info ''page reload'' opts))
                 [(tty_env, no_options), (tty_env, no_options)])
            (snd (calls (map (\<lambda>(E, opts). (E, log_call Info ''hmr update'' opts))
                 [(tty_env, no_options), (tty_env, no_options), (tty_env, no_options)])
               (initial_module, new_logger tty_env None default_options)))) ! 1
       = clearScreen tty_env @ [Console M_log [''page reload'', ''(x2)'']]"
proof -
  have cc: "canClearScreen (new_logger tty_env None default_options)"
    by (simp add: new_logger_def default_options_def tty_env_def truthy_string_def)
  have acc: "LogLevels (Level Info) \<le> thresh (new_logger tty_env None default_options)"
    by (simp add: new_logger_def)
  have fresh: "lastType initial_module \<noteq> Some Info
                 \<or> lastMsg initial_module \<noteq> Some ''hmr update''"
    by (simp add: initial_module_def)
  have differs: "Info \<noteq> Info \<or> ''page reload'' \<noteq> ''hmr update''" by simp
  have n: "2 < length [(tty_env, no_options), (tty_env, no_options), (tty_env, no_options)]"
    by simp
  have k: "1 < length [(tty_env, no_options), (tty_env, no_options)]" by simp
  have three: "show_nat (2 + 1) = ''3''" and two: "show_nat (1 + 1) = ''2''"
    by (simp_all add: show_nat.simps)
  have p1: "collapsed_print Info ''hmr update'' (new_logger tty_env None default_options)
              ([(tty_env, no_options), (tty_env, no_options), (tty_env, no_options)] ! 2) 2
            = clearScreen tty_env @ [Console M_log [''hmr update'', ''(x3)'']]"
    using three
    by (simp add: collapsed_print_def method_of_def format_def no_options_def tty_env_def)
  have p2: "collapsed_print Info ''page reload'' (new_logger tty_env None default_options)
              ([(tty_env, no_options), (tty_env, no_options)] ! 1) 1
            = clearScreen tty_env @ [Console M_log [''page reload'', ''(x2)'']]"
    using two
    by (simp add: collapsed_print_def method_of_def format_def no_options_def tty_env_def)
  have none: "lastType initial_module = None" by (simp add: initial_module_def)
  from repeat_suffix [OF cc acc acc fresh differs n k] p1 p2 cc acc none
  show ?thesis by presburger
qed

subsection \<open>The module variables are shared by all loggers\<close>

lemma invoke_Some:
  "r < length (heap w) \<Longrightarrow>
   invoke E r c w =
     Some (fst (call E c (module_vars w, heap w ! r)),
           w\<lparr>module_vars := fst (snd (call E c (module_vars w, heap w ! r))),
             heap := (heap w)[r := snd (snd (call E c (module_vars w, heap w ! r)))]\<rparr>)"
  by (simp add: invoke_def split: prod.splits)

lemma invoke_frame:
  assumes "invoke E a c w = Some (fx, w')" and "b \<noteq> a"
  shows "heap w' ! b = heap w ! b" and "length (heap w') = length (heap w)"
  using assms by (auto simp: invoke_def split: if_splits prod.splits)

lemma two_loggers_eq:
  "two_loggers =
     \<lparr>module_vars = initial_module,
      heap = [new_logger tty_env None default_options,
              new_logger tty_env None default_options]\<rparr>"
  by (simp add: two_loggers_def createLogger_def default_options_def empty_world_def)

lemma tty_env_fields:
  "cyan tty_env = id" "yellow tty_env = id" "red tty_env = id" "bold tty_env = id"
  "dim tty_env = id" "isTTY tty_env" "env_CI tty_env = None" "rows tty_env = 24"
  by (simp_all add: tty_env_def)

lemma new_logger_tty:
  "new_logger tty_env None default_options =
     \<lparr>prefix = ''[vite]'', thresh = 3, canClearScreen = True, loggedErrors = {},
      warnedMessages = {}, hasWarned = False\<rparr>"
  by (simp add: new_logger_def default_options_def tty_env_fields truthy_string_def)

text \<open>
  Claim C1, as amended. \<^verbatim>\<open>lastType\<close>, \<^verbatim>\<open>lastMsg\<close> and \<^verbatim>\<open>sameCount\<close> are variables
  of the module, one set for all the loggers that \<^verbatim>\<open>createLogger\<close> builds. A call on
  one logger leaves the own fields of every other logger (\<^verbatim>\<open>loggedErrors\<close>,
  \<^verbatim>\<open>warnedMessages\<close>, \<^verbatim>\<open>hasWarned\<close>) as they were; but with clearing permitted on both,
  an accepted call of \<^verbatim>\<open>info\<close>, \<^verbatim>\<open>warn\<close> or \<^verbatim>\<open>error\<close> on one logger records its
  severity and message in the shared variables, so that the same severity and message
  logged next on another logger is collapsed as a repeat and printed with a suffix.
\<close>

theorem dedup_state_shared:
  assumes a: "a < length (heap w)" and b: "b < length (heap w)" and ab: "a \<noteq> b"
    and cca: "canClearScreen (heap w ! a)" and ccb: "canClearScreen (heap w ! b)"
    and acca: "LogLevels (Level t) \<le> thresh (heap w ! a)"
    and accb: "LogLevels (Level t) \<le> thresh (heap w ! b)"
  shows "\<exists>fx w' w''.
       invoke E a (log_call t m opts) w = Some (fx, w')
     \<and> heap w' ! b = heap w ! b
     \<and> lastType (module_vars w') = Some t \<and> lastMsg (module_vars w') = Some m
     \<and> invoke E' b (log_call t m opts') w' =
         Some (clearScreen E' @
                 [Console (method_of t)
                    [format E' (heap w ! b) t m opts',
                     yellow E' (''(x'' @ show_nat (sameCount (module_vars w') + 2) @ '')'')]],
               w'')"
proof -
  define la where "la = (if t = Info then heap w ! a else (heap w ! a)\<lparr>hasWarned := True\<rparr>)"
  define lb where "lb = (if t = Info then heap w ! b else (heap w ! b)\<lparr>hasWarned := True\<rparr>)"
  have la: "canClearScreen la" "LogLevels (Level t) \<le> thresh la"
    using cca acca by (auto simp: la_def)
  have lb: "canClearScreen lb" "LogLevels (Level t) \<le> thresh lb" "prefix lb = prefix (heap w ! b)"
    using ccb accb by (auto simp: lb_def)
  obtain fx w' where first: "invoke E a (log_call t m opts) w = Some (fx, w')"
    using a by (simp add: invoke_Some)
  have frame: "heap w' ! b = heap w ! b" "length (heap w') = length (heap w)"
    using invoke_frame [OF first ab [THEN not_sym]] by simp_all
  have vars: "module_vars w' = fst (snd (output_fn E t m opts (module_vars w, la)))"
    using first a by (auto simp: invoke_Some call_log_call la_def [symmetric])
  have last: "lastType (module_vars w') = Some t \<and> lastMsg (module_vars w') = Some m"
  proof (cases "lastType (module_vars w) = Some t \<and> lastMsg (module_vars w) = Some m")
    case True
    then show ?thesis using vars la by (simp add: output_fn_repeat)
  next
    case False
    then have "lastType (module_vars w) \<noteq> Some t \<or> lastMsg (module_vars w) \<noteq> Some m"
      by simp
    then show ?thesis using vars la by (simp add: output_fn_first)
  qed
  have "call E' (log_call t m opts') (module_vars w', heap w' ! b) =
      (clearScreen E' @
         [Console (method_of t)
            [format E' (heap w ! b) t m opts',
             yellow E' (''(x'' @ show_nat (sameCount (module_vars w') + 2) @ '')'')]],
       (module_vars w'\<lparr>sameCount := sameCount (module_vars w') + 1\<rparr>, add_error opts' lb))"
    using output_fn_repeat [OF lb(1,2), of "module_vars w'" m E' opts'] last
      format_prefix [OF lb(3)] frame(1)
    by (simp add: call_log_call lb_def [symmetric])
  then have "\<exists>w''. invoke E' b (log_call t m opts') w' =
         Some (clearScreen E' @
                 [Console (method_of t)
                    [format E' (heap w ! b) t m opts',
                     yellow E' (''(x'' @ show_nat (sameCount (module_vars w') + 2) @ '')'')]],
               w'')"
    using b frame(2) by (simp add: invoke_Some)
  with first frame(1) last show ?thesis by blast
qed

theorem dedup_state_shared_witness:
  "0 < length (heap two_loggers) \<and> 1 < length (heap two_loggers)
   \<and> canClearScreen (heap two_loggers ! 0) \<and> canClearScreen (heap two_loggers ! 1)
   \<and> LogLevels (Level Warn) \<le> thresh (heap two_loggers ! 0)
   \<and> LogLevels (Level Warn) \<le> thresh (heap two_loggers ! 1)
   \<and> (\<exists>fx w' w''.
         invoke tty_env 0 (log_call Warn ''slow'' no_options) two_loggers = Some (fx, w')
       \<and> heap w' ! 1 = heap two_loggers ! 1
       \<and> lastType (module_vars w') = Some Warn \<and> lastMsg (module_vars w') = Some ''slow''
       \<and> invoke tty_env 1 (log_call Warn ''slow'' no_options) w' =
           Some (clearScreen tty_env @
                   [Console (method_of Warn)
                      [format tty_env (heap two_loggers ! 1) Warn ''slow'' no_options,
                       yellow tty_env
                         (''(x'' @ show_nat (sameCount (module_vars w') + 2) @ '')'')]],
                 w''))"
proof -
  have a: "0 < length (heap two_loggers)" and b: "1 < length (heap two_loggers)"
    by (simp_all add: two_loggers_eq)
  have ab: "(0::nat) \<noteq> 1" by simp
  have cca: "canClearScreen (heap two_loggers ! 0)"
    and ccb: "canClearScreen (heap two_loggers ! 1)"
    by (simp_all add: two_loggers_eq new_logger_tty)
  have acca: "LogLevels (Level Warn) \<le> thresh (heap two_loggers ! 0)"
    and accb: "LogLevels (Level Warn) \<le> thresh (heap two_loggers ! 1)"
    by (simp_all add: two_loggers_eq new_logger_tty)
  from dedup_state_shared [OF a b ab cca ccb acca accb, of tty_env "''slow''" no_options
         tty_env no_options] a b cca ccb acca accb
  show ?thesis by blast
qed

text \<open>
  The claim as the spec words it fails. Two loggers are made by \<^verbatim>\<open>createLogger()\<close> on
  a terminal; \<^verbatim>\<open>info('ready')\<close> on the first changes the variables the second reads,
  and \<^verbatim>\<open>info('ready')\<close> on the second, its first call ever, is then collapsed as a
  repeat, where alone it prints the message without a suffix.
\<close>

theorem loggers_share_dedup_state:
  "map_option fst (invokes [(tty_env, 1, Call_info ''ready'' no_options)] two_loggers)
     = Some [[Console M_log [''ready'']]]
   \<and> map_option fst
       (invokes [(tty_env, 0, Call_info ''ready'' no_options),
                 (tty_env, 1, Call_info ''ready'' no_options)] two_loggers)
     = Some [[Console M_log [''ready'']],
             clearScreen tty_env @ [Console M_log [''ready'', ''(x2)'']]]
   \<and> map_option (module_vars \<circ> snd)
       (invoke tty_env 0 (Call_info ''ready'' no_options) two_loggers)
     = Some \<lparr>lastType = Some Info, lastMsg = Some ''ready'', sameCount = 0\<rparr>
   \<and> module_vars two_loggers = \<lparr>lastType = None, lastMsg = None, sameCount = 0\<rparr>"
proof -
  have two: "show_nat (Suc (Suc 0)) = ''2''" by (simp add: show_nat.simps)
  show ?thesis
    using two
    by (simp add: two_loggers_eq new_logger_tty invoke_def info_def output_fn_def
          no_options_def add_error_def method_of_def format_def clear_def initial_module_def
          tty_env_fields)
qed

section \<open>Properties of the URL reporter\<close>

subsection \<open>The loopback branch\<close>

text \<open>
  Claim C7. When \<^verbatim>\<open>hostname.host\<close> is \<^verbatim>\<open>127.0.0.1\<close>, \<^verbatim>\<open>printServerUrls\<close> passes to
  \<^verbatim>\<open>info\<close> one line labelled \<^verbatim>\<open>Local:\<close> whose URL has \<^verbatim>\<open>hostname.name\<close> as its host,
  followed by one advisory line labelled \<^verbatim>\<open>Network:\<close> exactly when
  \<^verbatim>\<open>hostname.name\<close> is not \<^verbatim>\<open>127.0.0.1\<close>, and nothing else.
\<close>

theorem loopback_branch:
  assumes "host hostname = Some ''127.0.0.1''"
  shows "printServerUrls E nis hostname protocol port base =
           (''  > Local: '' @
              cyan E (protocol @ ''://'' @ name hostname @ '':'' @ bold E (show_nat port) @ base))
           # (if name hostname \<noteq> ''127.0.0.1''
              then [''  > Network: '' @ dim E ''use `--host` to expose''] else [])
     \<and> length (filter (Sublist.prefix ''  > Local:'')
                 (printServerUrls E nis hostname protocol port base)) = 1
     \<and> length (filter (Sublist.prefix ''  > Network:'')
                 (printServerUrls E nis hostname protocol port base))
           = (if name hostname \<noteq> ''127.0.0.1'' then 1 else 0)"
  using assms by (simp add: printServerUrls_def)

theorem loopback_branch_witness:
  "host \<lparr>host = Some ''127.0.0.1'', name = ''localhost''\<rparr> = Some ''127.0.0.1''
   \<and> printServerUrls tty_env [Some [\<lparr>address = ''192.168.1.5'', family = IPv4\<rparr>]]
         \<lparr>host = Some ''127.0.0.1'', name = ''localhost''\<rparr> ''http'' 5173 ''/''
       = [''  > Local: http://localhost:5173/'', ''  > Network: use `--host` to expose'']"
proof -
  have port: "show_nat 5173 = ''5173''" by (simp add: show_nat.simps)
  have h: "host \<lparr>host = Some ''127.0.0.1'', name = ''localhost''\<rparr> = Some ''127.0.0.1''"
    by simp
  from loopback_branch [OF h, of tty_env "[Some [\<lparr>address = ''192.168.1.5'', family = IPv4\<rparr>]]"
         "''http''" 5173 "''/''"] port
  show ?thesis by (simp add: tty_env_fields)
qed

subsection \<open>IPv6 addresses\<close>

lemma flat_interfaces_filter:
  "flat_interfaces (map (map_option (filter Q)) nis) = filter Q (flat_interfaces nis)"
  by (induction nis) (auto simp: flat_interfaces_def split: option.splits)

lemma keep_detail_IPv6:
  "family d = IPv6 \<Longrightarrow>
   keep_detail hostname d =
     (address d \<noteq> [] \<and>
      (\<exists>h. host hostname = Some h \<and> h \<noteq> [] \<and> includes_str h (address d) \<and> h \<noteq> ''::''))"
  by (auto simp: keep_detail_def split: option.splits)

text \<open>
  Claim C8. A descriptor of family IPv6 passes the filter of \<^verbatim>\<open>printServerUrls\<close> only if
  \<^verbatim>\<open>hostname.host\<close> is set, contains the address of the descriptor and is not
  \<^verbatim>\<open>::\<close>; the lines passed to \<^verbatim>\<open>info\<close> are those for the interface list without the
  IPv6 descriptors that fail this condition; and when \<^verbatim>\<open>hostname.host\<close> is unset the
  lines are those for the interface list without any IPv6 descriptor.
\<close>

theorem ipv6_needs_matching_host:
  "(d \<in> set (filter (keep_detail hostname) (flat_interfaces nis)) \<and> family d = IPv6 \<longrightarrow>
      (\<exists>h. host hostname = Some h \<and> includes_str h (address d) \<and> h \<noteq> ''::''))
   \<and> printServerUrls E nis hostname protocol port base =
       printServerUrls E
         (map (map_option (filter (\<lambda>d. family d = IPv6 \<longrightarrow>
                 (\<exists>h. host hostname = Some h \<and> includes_str h (address d) \<and> h \<noteq> ''::''))))
            nis)
         hostname protocol port base
   \<and> (host hostname = None \<longrightarrow>
        printServerUrls E nis hostname protocol port base =
        printServerUrls E (map (map_option (filter (\<lambda>d. family d = IPv4))) nis)
          hostname protocol port base)"
proof -
  have A: "d \<in> set (filter (keep_detail hostname) (flat_interfaces nis)) \<and> family d = IPv6 \<longrightarrow>
      (\<exists>h. host hostname = Some h \<and> includes_str h (address d) \<and> h \<noteq> ''::'')"
    by (auto simp: keep_detail_IPv6)
  have B: "filter (keep_detail hostname)
             (filter (\<lambda>d. family d = IPv6 \<longrightarrow>
                 (\<exists>h. host hostname = Some h \<and> includes_str h (address d) \<and> h \<noteq> ''::'')) xs)
           = filter (keep_detail hostname) xs" for xs
    by (induction xs) (auto simp: keep_detail_IPv6)
  have K: "host hostname = None \<Longrightarrow> keep_detail hostname a \<Longrightarrow> family a = IPv4" for a
    by (cases "family a") (auto simp: keep_detail_IPv6)
  have C: "host hostname = None \<Longrightarrow>
           filter (keep_detail hostname) (filter (\<lambda>d. family d = IPv4) xs)
           = filter (keep_detail hostname) xs" for xs
    by (induction xs) (auto dest: K)
  show ?thesis
    using A B C by (simp add: printServerUrls_def flat_interfaces_filter)
qed

theorem ipv6_needs_matching_host_witness:
  "\<lparr>address = ''fe80::1'', family = IPv6\<rparr>
     \<in> set (filter (keep_detail \<lparr>host = Some ''fe80::1'', name = ''fe80::1''\<rparr>)
              (flat_interfaces [Some [\<lparr>address = ''fe80::1'', family = IPv6\<rparr>]]))
   \<and> includes_str ''fe80::1'' ''fe80::1''
   \<and> printServerUrls tty_env
        [Some [\<lparr>address = ''127.0.0.1'', family = IPv4\<rparr>, \<lparr>address = ''::1'', family = IPv6\<rparr>],
         None,
         Some [\<lparr>address = ''fe80::1'', family = IPv6\<rparr>,
               \<lparr>address = ''192.168.1.5'', family = IPv4\<rparr>]]
        \<lparr>host = None, name = ''localhost''\<rparr> ''http'' 3000 ''/''
      = printServerUrls tty_env
        [Some [\<lparr>address = ''127.0.0.1'', family = IPv4\<rparr>],
         None,
         Some [\<lparr>address = ''192.168.1.5'', family = IPv4\<rparr>]]
        \<lparr>host = None, name = ''localhost''\<rparr> ''http'' 3000 ''/''"
  using ipv6_needs_matching_host [of "\<lparr>address = ''fe80::1'', family = IPv6\<rparr>"
          "\<lparr>host = Some ''fe80::1'', name = ''fe80::1''\<rparr>"
          "[Some [\<lparr>address = ''fe80::1'', family = IPv6\<rparr>]]" tty_env "''http''" 3000 "''/''"]
    ipv6_needs_matching_host [of "\<lparr>address = ''fe80::1'', family = IPv6\<rparr>"
          "\<lparr>host = None, name = ''localhost''\<rparr>"
          "[Some [\<lparr>address = ''127.0.0.1'', family = IPv4\<rparr>, \<lparr>address = ''::1'', family = IPv6\<rparr>],
            None,
            Some [\<lparr>address = ''fe80::1'', family = IPv6\<rparr>,
                  \<lparr>address = ''192.168.1.5'', family = IPv4\<rparr>]]" tty_env "''http''" 3000 "''/''"]
  by (simp add: flat_interfaces_def keep_detail_def)

subsection \<open>Servers without an address\<close>

text \<open>
  Claim C10. When \<^verbatim>\<open>server.address()\<close> is \<^verbatim>\<open>null\<close> or a string,
  \<^verbatim>\<open>printCommonServerUrls\<close> passes nothing to \<^verbatim>\<open>info\<close>: it prints nothing and leaves
  the module variables and the logger as they were. It passes lines to \<^verbatim>\<open>info\<close> only for
  an \<^verbatim>\<open>AddressInfo\<close> whose \<^verbatim>\<open>address\<close> is not empty.
\<close>

theorem no_urls_without_address_info:
  "(addr = Addr_null \<or> addr = Addr_string p \<longrightarrow>
      printCommonServerUrls_msgs E nis resolveHostname addr options base = []
      \<and> printCommonServerUrls E nis resolveHostname addr options base s = ([], s))
   \<and> (printCommonServerUrls_msgs E nis resolveHostname addr options base \<noteq> [] \<longrightarrow>
        (\<exists>a. addr = Addr_info a \<and> ai_address a \<noteq> []))"
  by (cases addr)
     (auto simp: printCommonServerUrls_def printCommonServerUrls_msgs_def)

theorem no_urls_without_address_info_witness:
  "printCommonServerUrls tty_env [Some [\<lparr>address = ''192.168.1.5'', family = IPv4\<rparr>]]
     (\<lambda>h. \<lparr>host = h, name = ''localhost''\<rparr>) Addr_null
     \<lparr>so_host = None, so_https = False\<rparr> ''/''
     (initial_module, new_logger tty_env None default_options)
     = ([], (initial_module, new_logger tty_env None default_options))
   \<and> printCommonServerUrls tty_env [Some [\<lparr>address = ''192.168.1.5'', family = IPv4\<rparr>]]
     (\<lambda>h. \<lparr>host = h, name = ''localhost''\<rparr>) (Addr_string ''/tmp/vite.sock'')
     \<lparr>so_host = None, so_https = False\<rparr> ''/''
     (initial_module, new_logger tty_env None default_options)
     = ([], (initial_module, new_logger tty_env None default_options))
   \<and> printCommonServerUrls_msgs tty_env [Some [\<lparr>address = ''192.168.1.5'', family = IPv4\<rparr>]]
     (\<lambda>h. \<lparr>host = h, name = ''localhost''\<rparr>)
     (Addr_info \<lparr>ai_address = ''::'', ai_family = ''IPv6'', ai_port = 3000\<rparr>)
     \<lparr>so_host = None, so_https = False\<rparr> ''/''
     = [''  > Network:  http://192.168.1.5:3000/'']"
proof -
  have port: "show_nat 3000 = ''3000''" by (simp add: show_nat.simps)
  have lines: "printCommonServerUrls_msgs tty_env
     [Some [\<lparr>address = ''192.168.1.5'', family = IPv4\<rparr>]]
     (\<lambda>h. \<lparr>host = h, name = ''localhost''\<rparr>)
     (Addr_info \<lparr>ai_address = ''::'', ai_family = ''IPv6'', ai_port = 3000\<rparr>)
     \<lparr>so_host = None, so_https = False\<rparr> ''/''
     = [''  > Network:  http://192.168.1.5:3000/'']"
    using port
    by (simp add: printCommonServerUrls_msgs_def printServerUrls_def flat_interfaces_def
          keep_detail_def url_line_def replace_def tty_env_fields)
  from no_urls_without_address_info [of Addr_null "''''" tty_env
         "[Some [\<lparr>address = ''192.168.1.5'', family = IPv4\<rparr>]]"
         "\<lambda>h. \<lparr>host = h, name = ''localhost''\<rparr>" "\<lparr>so_host = None, so_https = False\<rparr>" "''/''"
         "(initial_module, new_logger tty_env None default_options)"]
    no_urls_without_address_info [of "Addr_string ''/tmp/vite.sock''" "''/tmp/vite.sock''" tty_env
         "[Some [\<lparr>address = ''192.168.1.5'', family = IPv4\<rparr>]]"
         "\<lambda>h. \<lparr>host = h, name = ''localhost''\<rparr>" "\<lparr>so_host = None, so_https = False\<rparr>" "''/''"
         "(initial_module, new_logger tty_env None default_options)"]
    lines
  show ?thesis by simp
qed

end
